theory Spec2Isabelle
  imports Complex_Main
begin

section \<open>Wallet risk evaluation\<close>

text \<open>
  The repository holds three variants of one class, \<open>WalletRiskEvaluator\<close>:
  \<^item> \<^verbatim>\<open>proxy_resolver.py\<close>: the configurable evaluator; a first-match rule cascade over
    sanitised \<open>Tx\<close> values, with an early exit in the aggregation loops;
  \<^item> \<^verbatim>\<open>oracle_insight.py\<close>: fixed constants, rules that stack, a high-frequency rule over
    the whole list and a blacklist;
  \<^item> \<^verbatim>\<open>python/ai/bot_detector.py\<close>: fixed constants, a cascade that indexes the input
    dictionaries directly.
  Definitions of the first variant keep the source's names; those of the other two carry
  the prefixes \<open>oi_\<close> and \<open>bd_\<close>. A leading underscore of a method name is dropped.
\<close>

subsection \<open>Input records and errors\<close>

text \<open>
  A transaction arrives as a Python dictionary, and each of its keys may be absent (\<open>None\<close>
  of the option type). Strings are byte lists, the UTF-8 encoding of Python's code points.

  The stacking and the indexing variant use the values of a dictionary as they are. Their
  dictionaries are modelled at the types their rules expect: a present amount is a number
  or Python's \<^verbatim>\<open>None\<close>, a present type or destination is a string, a present timestamp
  is a naive \<^verbatim>\<open>datetime\<close>, given in microseconds. The two variants only compare an amount
  with the integer 10000, which Python does exactly, so a number is the real it denotes.
\<close>

datatype pynum = PyNone | PyNum real

record raw_tx =
  r_amount :: "pynum option"
  r_type :: "string option"
  r_destination :: "string option"
  r_timestamp :: "int option"

datatype error = KeyError string | TypeError | OverflowError | ValueError

subsection \<open>Values and conversions of the configurable evaluator\<close>

text \<open>
  The constructor of the configurable evaluator converts what it is given, with
  \<^verbatim>\<open>float\<close>, \<^verbatim>\<open>int\<close> and \<^verbatim>\<open>str\<close>, so the amounts and the keyword arguments it receives are
  values of any of these kinds: \<^verbatim>\<open>None\<close>, an integer, a float, a string. A float is a
  finite double, an infinity or NaN; the finite ones are the reals they denote. A present
  type or destination is a string, on which \<^verbatim>\<open>str\<close> changes nothing.
\<close>

datatype pyfloat = Finite real | PosInf | NegInf | NaN

datatype pyval = NoneVal | IntVal int | FloatVal pyfloat | StrVal string

text \<open>\<^verbatim>\<open>a > b\<close> on floats: false when either side is NaN.\<close>

fun float_gt :: "pyfloat \<Rightarrow> pyfloat \<Rightarrow> bool" where
  "float_gt NaN b = False"
| "float_gt a NaN = False"
| "float_gt (Finite a) (Finite b) = (a > b)"
| "float_gt PosInf PosInf = False"
| "float_gt PosInf b = True"
| "float_gt a PosInf = False"
| "float_gt NegInf b = False"
| "float_gt a NegInf = True"

text \<open>
  What the builtins do on strings is not part of the repository, and is taken as a
  parameter: the float and the integer a string denotes for \<^verbatim>\<open>float\<close> and \<^verbatim>\<open>int\<close>
  (\<open>None\<close> where they raise \<^verbatim>\<open>ValueError\<close>), and \<^verbatim>\<open>str.lower\<close> on a string that has a
  code point outside ASCII.
\<close>

record builtins =
  float_of_str :: "string \<Rightarrow> pyfloat option"
  int_of_str :: "string \<Rightarrow> int option"
  lower_non_ascii :: "string \<Rightarrow> string"

text \<open>\<^verbatim>\<open>n.bit_length()\<close> of a natural number.\<close>

fun bit_length :: "nat \<Rightarrow> nat" where
  "bit_length n = (if n = 0 then 0 else Suc (bit_length (n div 2)))"

text \<open>
  \<^verbatim>\<open>float(n)\<close> on an integer: the nearest double, a tie going to the even significand of
  53 bits, and \<^verbatim>\<open>OverflowError\<close> when that is \<open>2 ^ 1024\<close> or more in magnitude. Below
  \<open>2 ^ 53\<close> every integer is a double.
\<close>

definition float_of_int :: "int \<Rightarrow> error + pyfloat" where
  "float_of_int n =
     (let m = nat \<bar>n\<bar> in
      if m < 2 ^ 53 then Inr (Finite (of_int n))
      else
        (let e = bit_length m - 53;
             q = m div 2 ^ e;
             r = m mod 2 ^ e;
             q' = (if r > 2 ^ (e - 1) \<or> (r = 2 ^ (e - 1) \<and> odd q) then q + 1 else q);
             v = q' * 2 ^ e
         in if v \<ge> 2 ^ 1024 then Inl OverflowError
            else Inr (Finite (if n < 0 then - of_nat v else of_nat v))))"

text \<open>\<^verbatim>\<open>float(x)\<close>.\<close>

fun py_float :: "builtins \<Rightarrow> pyval \<Rightarrow> error + pyfloat" where
  "py_float py NoneVal = Inl TypeError"
| "py_float py (IntVal n) = float_of_int n"
| "py_float py (FloatVal f) = Inr f"
| "py_float py (StrVal s) =
     (case float_of_str py s of None \<Rightarrow> Inl ValueError | Some f \<Rightarrow> Inr f)"

text \<open>\<^verbatim>\<open>int(x)\<close>: a finite float is truncated towards zero; an infinity raises
  \<^verbatim>\<open>OverflowError\<close>, NaN \<^verbatim>\<open>ValueError\<close>.\<close>

fun py_int :: "builtins \<Rightarrow> pyval \<Rightarrow> error + int" where
  "py_int py NoneVal = Inl TypeError"
| "py_int py (IntVal n) = Inr n"
| "py_int py (FloatVal (Finite r)) = Inr (if 0 \<le> r then \<lfloor>r\<rfloor> else \<lceil>r\<rceil>)"
| "py_int py (FloatVal PosInf) = Inl OverflowError"
| "py_int py (FloatVal NegInf) = Inl OverflowError"
| "py_int py (FloatVal NaN) = Inl ValueError"
| "py_int py (StrVal s) =
     (case int_of_str py s of None \<Rightarrow> Inl ValueError | Some n \<Rightarrow> Inr n)"

subsection \<open>Strings\<close>

text \<open>The lower case of an ASCII letter.\<close>

definition lower_char :: "char \<Rightarrow> char" where
  "lower_char c =
     (let n = (of_char c :: nat) in if 65 \<le> n \<and> n \<le> 90 then char_of (n + 32) else c)"

text \<open>
  \<^verbatim>\<open>s.lower()\<close>: on a string of ASCII characters the letters are lowered one by one; a
  string with a code point outside ASCII is left to the parameter.
\<close>

definition py_lower :: "builtins \<Rightarrow> string \<Rightarrow> string" where
  "py_lower py s =
     (if list_all (\<lambda>c. (of_char c :: nat) < 128) s then map lower_char s
      else lower_non_ascii py s)"

text \<open>\<^verbatim>\<open>s.startswith(p)\<close>.\<close>

fun startswith :: "string \<Rightarrow> string \<Rightarrow> bool" where
  "startswith s [] = True"
| "startswith [] (p # ps) = False"
| "startswith (c # cs) (p # ps) = (c = p \<and> startswith cs ps)"

text \<open>
  The pattern \<^verbatim>\<open>^unknown(?:_|$)\<close>, compiled with \<^verbatim>\<open>re.IGNORECASE\<close> and applied with
  \<^verbatim>\<open>match\<close>. A letter of the pattern matches a character whose lower case it is: the two
  ASCII cases and, for \<^verbatim>\<open>k\<close>, the Kelvin sign U+212A (bytes E2 84 AA). \<^verbatim>\<open>$\<close> matches at
  the end of the string and before a newline that ends the string.
\<close>

definition kelvin_sign :: string where
  "kelvin_sign = [char_of (226 :: nat), char_of (132 :: nat), char_of (170 :: nat)]"

fun match_ignorecase :: "string \<Rightarrow> string \<Rightarrow> string option" where
  "match_ignorecase [] s = Some s"
| "match_ignorecase (p # ps) [] = None"
| "match_ignorecase (p # ps) (c # cs) =
     (if lower_char c = p then match_ignorecase ps cs
      else if p = CHR ''k'' \<and> take 3 (c # cs) = kelvin_sign
        then match_ignorecase ps (drop 3 (c # cs))
      else None)"

definition unknown_re_match :: "string \<Rightarrow> bool" where
  "unknown_re_match d =
     (case match_ignorecase ''unknown'' d of
        None \<Rightarrow> False
      | Some rest \<Rightarrow>
          (case rest of
             [] \<Rightarrow> True
           | c # cs \<Rightarrow> c = CHR ''_'' \<or> (c = CHR 0x0A \<and> cs = [])))"

subsection \<open>The configurable evaluator (proxy\_resolver.py)\<close>

record Tx =
  amount :: pyfloat
  type :: string
  destination :: string

record config =
  large_out_threshold :: pyfloat
  score_large_out :: int
  score_unknown_dest :: int
  score_baseline :: int
  max_score :: int

record WalletRiskEvaluator = config +
  transactions :: "Tx list"

text \<open>The configuration an evaluator holds under the keyword defaults of
  \<^verbatim>\<open>__init__\<close>.\<close>

definition default_config :: config where
  "default_config =
     \<lparr>large_out_threshold = Finite 10000, score_large_out = 20, score_unknown_dest = 15,
      score_baseline = 5, max_score = 100\<rparr>"

text \<open>The keyword arguments of \<^verbatim>\<open>__init__\<close> as the caller passes them, and their
  defaults.\<close>

record init_args =
  arg_large_out_threshold :: pyval
  arg_score_large_out :: pyval
  arg_score_unknown_dest :: pyval
  arg_score_baseline :: pyval
  arg_max_score :: pyval

definition default_args :: init_args where
  "default_args =
     \<lparr>arg_large_out_threshold = FloatVal (Finite 10000), arg_score_large_out = IntVal 20,
      arg_score_unknown_dest = IntVal 15, arg_score_baseline = IntVal 5,
      arg_max_score = IntVal 100\<rparr>"

text \<open>The first five assignments of \<^verbatim>\<open>__init__\<close>: \<^verbatim>\<open>float\<close> of the threshold, then
  \<^verbatim>\<open>int\<close> of the four scores, in this order; the first conversion that raises ends the
  construction. No value is checked.\<close>

definition init_config :: "builtins \<Rightarrow> init_args \<Rightarrow> error + config" where
  "init_config py a =
     (case py_float py (arg_large_out_threshold a) of
        Inl e \<Rightarrow> Inl e
      | Inr thr \<Rightarrow>
     (case py_int py (arg_score_large_out a) of
        Inl e \<Rightarrow> Inl e
      | Inr s_large \<Rightarrow>
     (case py_int py (arg_score_unknown_dest a) of
        Inl e \<Rightarrow> Inl e
      | Inr s_unknown \<Rightarrow>
     (case py_int py (arg_score_baseline a) of
        Inl e \<Rightarrow> Inl e
      | Inr s_base \<Rightarrow>
     (case py_int py (arg_max_score a) of
        Inl e \<Rightarrow> Inl e
      | Inr s_max \<Rightarrow>
          Inr \<lparr>large_out_threshold = thr, score_large_out = s_large,
               score_unknown_dest = s_unknown, score_baseline = s_base,
               max_score = s_max\<rparr>)))))"

text \<open>The dictionary of one transaction as the constructor reads it.\<close>

record tx_dict =
  d_amount :: "pyval option"
  d_type :: "string option"
  d_destination :: "string option"

text \<open>\<^verbatim>\<open>float(t.get("amount", 0.0))\<close>.\<close>

definition amount_of :: "builtins \<Rightarrow> tx_dict \<Rightarrow> error + pyfloat" where
  "amount_of py t =
     py_float py (case d_amount t of None \<Rightarrow> FloatVal (Finite 0) | Some v \<Rightarrow> v)"

text \<open>One step of the sanitising loop of \<^verbatim>\<open>__init__\<close>: \<^verbatim>\<open>t.get(key, default)\<close> and the
  conversions.\<close>

definition sanitize :: "builtins \<Rightarrow> tx_dict \<Rightarrow> error + Tx" where
  "sanitize py t =
     (case amount_of py t of
        Inl e \<Rightarrow> Inl e
      | Inr a \<Rightarrow>
          Inr \<lparr>amount = a,
               type = py_lower py (case d_type t of None \<Rightarrow> [] | Some s \<Rightarrow> s),
               destination = (case d_destination t of None \<Rightarrow> [] | Some s \<Rightarrow> s)\<rparr>)"

fun sanitize_all :: "builtins \<Rightarrow> Tx list \<Rightarrow> tx_dict list \<Rightarrow> error + Tx list" where
  "sanitize_all py acc [] = Inr acc"
| "sanitize_all py acc (t # ts) =
     (case sanitize py t of
        Inl e \<Rightarrow> Inl e
      | Inr tx \<Rightarrow> sanitize_all py (acc @ [tx]) ts)"

text \<open>The evaluator that holds the configuration \<open>c\<close> and the transactions \<open>txs\<close>.\<close>

definition evaluator_of :: "config \<Rightarrow> Tx list \<Rightarrow> WalletRiskEvaluator" where
  "evaluator_of c txs =
     \<lparr>large_out_threshold = large_out_threshold c,
      score_large_out = score_large_out c,
      score_unknown_dest = score_unknown_dest c,
      score_baseline = score_baseline c,
      max_score = max_score c,
      transactions = txs\<rparr>"

text \<open>\<^verbatim>\<open>__init__\<close>: the keyword arguments are converted and stored, then the transactions
  are sanitised in order; the first conversion that raises ends the construction.\<close>

definition init :: "builtins \<Rightarrow> init_args \<Rightarrow> tx_dict list \<Rightarrow> error + WalletRiskEvaluator" where
  "init py a ts =
     (case init_config py a of
        Inl e \<Rightarrow> Inl e
      | Inr c \<Rightarrow>
          (case sanitize_all py [] ts of
             Inl e \<Rightarrow> Inl e
           | Inr txs \<Rightarrow> Inr (evaluator_of c txs)))"

definition score_tx :: "WalletRiskEvaluator \<Rightarrow> Tx \<Rightarrow> int \<times> string" where
  "score_tx self tx =
     (if type tx = ''out'' \<and> float_gt (amount tx) (large_out_threshold self)
        then (score_large_out self, ''large_out'')
      else if unknown_re_match (destination tx)
        then (score_unknown_dest self, ''unknown_destination'')
      else (score_baseline self, ''baseline''))"

definition evaluate_tx :: "WalletRiskEvaluator \<Rightarrow> Tx \<Rightarrow> int" where
  "evaluate_tx self tx = fst (score_tx self tx)"

text \<open>The loop of \<^verbatim>\<open>evaluate\<close>, from a running total and the transactions still to
  visit.\<close>

fun evaluate_loop :: "WalletRiskEvaluator \<Rightarrow> int \<Rightarrow> Tx list \<Rightarrow> int" where
  "evaluate_loop self tot [] = min (max_score self) tot"
| "evaluate_loop self tot (tx # rest) =
     (let tot' = tot + evaluate_tx self tx
      in if tot' \<ge> max_score self then max_score self
         else evaluate_loop self tot' rest)"

definition evaluate :: "WalletRiskEvaluator \<Rightarrow> int" where
  "evaluate self = evaluate_loop self 0 (transactions self)"

text \<open>The loop of \<^verbatim>\<open>evaluate_detailed\<close>, with the details collected so far.\<close>

fun evaluate_detailed_loop ::
  "WalletRiskEvaluator \<Rightarrow> int \<Rightarrow> (Tx \<times> int \<times> string) list \<Rightarrow> Tx list
     \<Rightarrow> int \<times> (Tx \<times> int \<times> string) list" where
  "evaluate_detailed_loop self tot details [] = (min (max_score self) tot, details)"
| "evaluate_detailed_loop self tot details (tx # rest) =
     (let (s, why) = score_tx self tx;
          details' = details @ [(tx, s, why)];
          tot' = tot + s
      in if tot' \<ge> max_score self then (max_score self, details')
         else evaluate_detailed_loop self tot' details' rest)"

definition evaluate_detailed :: "WalletRiskEvaluator \<Rightarrow> int \<times> (Tx \<times> int \<times> string) list" where
  "evaluate_detailed self = evaluate_detailed_loop self 0 [] (transactions self)"

text \<open>The demo's two steps, \<^verbatim>\<open>WalletRiskEvaluator(data, ...).evaluate()\<close>: construction, then
  evaluation.\<close>

definition risk_score :: "builtins \<Rightarrow> init_args \<Rightarrow> tx_dict list \<Rightarrow> error + int" where
  "risk_score py a ts =
     (case init py a ts of Inl e \<Rightarrow> Inl e | Inr self \<Rightarrow> Inr (evaluate self))"

subsection \<open>The stacking evaluator (oracle\_insight.py)\<close>

text \<open>
  This variant keeps the caller's list of dictionaries as it is, and its high-frequency rule
  tells a transaction from the others by object identity (\<^verbatim>\<open>other is not tx\<close>). The list is
  therefore a list of references into a store of dictionaries; one dictionary may occur at
  several positions.
\<close>

type_synonym ref = nat

record oi_WalletRiskEvaluator =
  oi_store :: "ref \<Rightarrow> raw_tx"
  oi_transactions :: "ref list"

text \<open>\<^verbatim>\<open>abs((tx_time - other_time).total_seconds()) < 60\<close>, on microseconds.\<close>

definition within_minute :: "int \<Rightarrow> int \<Rightarrow> bool" where
  "within_minute tx_time other_time = (\<bar>tx_time - other_time\<bar> < 60000000)"

fun oi_count_loop :: "(ref \<Rightarrow> raw_tx) \<Rightarrow> ref \<Rightarrow> int \<Rightarrow> nat \<Rightarrow> ref list \<Rightarrow> nat" where
  "oi_count_loop st tx tx_time count [] = count"
| "oi_count_loop st tx tx_time count (other # rest) =
     (if other \<noteq> tx then
        (case r_timestamp (st other) of
           None \<Rightarrow> oi_count_loop st tx tx_time count rest
         | Some other_time \<Rightarrow>
             if within_minute tx_time other_time
               then oi_count_loop st tx tx_time (count + 1) rest
             else oi_count_loop st tx tx_time count rest)
      else oi_count_loop st tx tx_time count rest)"

definition oi_is_high_frequency :: "oi_WalletRiskEvaluator \<Rightarrow> ref \<Rightarrow> bool" where
  "oi_is_high_frequency self tx =
     (case r_timestamp (oi_store self tx) of
        None \<Rightarrow> False
      | Some tx_time \<Rightarrow>
          oi_count_loop (oi_store self) tx tx_time 0 (oi_transactions self) \<ge> 3)"

definition oi_is_blacklisted :: "string \<Rightarrow> bool" where
  "oi_is_blacklisted destination_name =
     (destination_name \<in> {''unknown_wallet'', ''suspicious_address'', ''scam_target''})"

text \<open>\<^verbatim>\<open>tx.get('destination', '')\<close>.\<close>

definition get_destination :: "raw_tx \<Rightarrow> string" where
  "get_destination t = (case r_destination t of None \<Rightarrow> [] | Some d \<Rightarrow> d)"

text \<open>
  \<^verbatim>\<open>_evaluate_tx\<close>: the comparison of the amount with 10000 comes first and raises
  \<^verbatim>\<open>TypeError\<close> on \<^verbatim>\<open>None\<close>; the four rules then add to \<^verbatim>\<open>risk_points\<close> in turn, and
  \<^verbatim>\<open>risk_points or 5\<close> gives 5 when nothing was added.
\<close>

definition oi_evaluate_tx :: "oi_WalletRiskEvaluator \<Rightarrow> ref \<Rightarrow> error + int" where
  "oi_evaluate_tx self tx =
     (case (case r_amount (oi_store self tx) of None \<Rightarrow> PyNum 0 | Some v \<Rightarrow> v) of
        PyNone \<Rightarrow> Inl TypeError
      | PyNum a \<Rightarrow>
          (let p0 = (0 :: int);
               p1 = (if a > 10000 \<and> r_type (oi_store self tx) = Some ''out''
                     then p0 + 20 else p0);
               p2 = (if startswith (get_destination (oi_store self tx)) ''unknown_''
                     then p1 + 15 else p1);
               p3 = (if oi_is_high_frequency self tx then p2 + 10 else p2);
               p4 = (if oi_is_blacklisted (get_destination (oi_store self tx))
                     then p3 + 25 else p3)
           in Inr (if p4 \<noteq> 0 then p4 else 5)))"

text \<open>The loop of \<^verbatim>\<open>evaluate\<close>; an error of one transaction ends it.\<close>

fun oi_evaluate_loop :: "oi_WalletRiskEvaluator \<Rightarrow> int \<Rightarrow> ref list \<Rightarrow> error + int" where
  "oi_evaluate_loop self score [] = Inr score"
| "oi_evaluate_loop self score (tx # rest) =
     (case oi_evaluate_tx self tx of
        Inl e \<Rightarrow> Inl e
      | Inr s \<Rightarrow> oi_evaluate_loop self (score + s) rest)"

definition oi_evaluate :: "oi_WalletRiskEvaluator \<Rightarrow> error + int" where
  "oi_evaluate self =
     (case oi_evaluate_loop self 0 (oi_transactions self) of
        Inl e \<Rightarrow> Inl e
      | Inr score \<Rightarrow> Inr (min 100 score))"

subsection \<open>The indexing evaluator (python/ai/bot\_detector.py)\<close>

text \<open>
  \<^verbatim>\<open>tx['destination'].startswith("unknown_")\<close>, reached when the first condition is false:
  indexing raises \<^verbatim>\<open>KeyError\<close> on an absent key.
\<close>

definition bd_destination_rule :: "raw_tx \<Rightarrow> error + int" where
  "bd_destination_rule tx =
     (case r_destination tx of
        None \<Rightarrow> Inl (KeyError ''destination'')
      | Some d \<Rightarrow> if startswith d ''unknown_'' then Inr 15 else Inr 5)"

text \<open>
  \<^verbatim>\<open>_evaluate_tx\<close>: \<^verbatim>\<open>tx['amount'] > 10000 and tx['type'] == 'out'\<close> reads the type only when
  the amount is above 10000.
\<close>

definition bd_evaluate_tx :: "raw_tx \<Rightarrow> error + int" where
  "bd_evaluate_tx tx =
     (case r_amount tx of
        None \<Rightarrow> Inl (KeyError ''amount'')
      | Some PyNone \<Rightarrow> Inl TypeError
      | Some (PyNum a) \<Rightarrow>
          if a > 10000 then
            (case r_type tx of
               None \<Rightarrow> Inl (KeyError ''type'')
             | Some ty \<Rightarrow> if ty = ''out'' then Inr 20 else bd_destination_rule tx)
          else bd_destination_rule tx)"

fun bd_evaluate_loop :: "int \<Rightarrow> raw_tx list \<Rightarrow> error + int" where
  "bd_evaluate_loop score [] = Inr score"
| "bd_evaluate_loop score (tx # rest) =
     (case bd_evaluate_tx tx of
        Inl e \<Rightarrow> Inl e
      | Inr s \<Rightarrow> bd_evaluate_loop (score + s) rest)"

definition bd_evaluate :: "raw_tx list \<Rightarrow> error + int" where
  "bd_evaluate txs =
     (case bd_evaluate_loop 0 txs of
        Inl e \<Rightarrow> Inl e
      | Inr score \<Rightarrow> Inr (min 100 score))"

subsection \<open>Reference definitions\<close>

text \<open>The unclamped sum of the per-transaction scores of a list.\<close>

definition running_sum :: "WalletRiskEvaluator \<Rightarrow> Tx list \<Rightarrow> int" where
  "running_sum self txs = sum_list (map (evaluate_tx self) txs)"

text \<open>Evaluating every transaction and clamping the sum afterwards, with no early exit.\<close>

definition evaluate_all_then_clamp :: "WalletRiskEvaluator \<Rightarrow> int" where
  "evaluate_all_then_clamp self = min (max_score self) (running_sum self (transactions self))"

text \<open>The sum of the per-transaction scores of the stacking variant, before the clamp.\<close>

definition oi_running_sum :: "oi_WalletRiskEvaluator \<Rightarrow> error + int" where
  "oi_running_sum self = oi_evaluate_loop self 0 (oi_transactions self)"

text \<open>The configurations the specification calls invalid, as far as the code has the
  notions: a negative threshold, or a maximum that is not positive.\<close>

definition invalid_configuration :: "config \<Rightarrow> bool" where
  "invalid_configuration c = (float_gt (Finite 0) (large_out_threshold c) \<or> max_score c \<le> 0)"

subsection \<open>Concrete inputs\<close>

text \<open>A dictionary with no key at all.\<close>

definition empty_dict :: raw_tx where
  "empty_dict = \<lparr>r_amount = None, r_type = None, r_destination = None, r_timestamp = None\<rparr>"

text \<open>A list of dictionaries that are separate objects, as a list display of dictionary
  displays builds it: position \<open>i\<close> of the list refers to object \<open>i\<close>.\<close>

definition oi_of_dicts :: "raw_tx list \<Rightarrow> oi_WalletRiskEvaluator" where
  "oi_of_dicts ts =
     \<lparr>oi_store = (\<lambda>r. if r < length ts then ts ! r else empty_dict),
      oi_transactions = [0..<length ts]\<rparr>"

text \<open>The fixture \<^verbatim>\<open>sample_transactions\<close> of oracle\_insight.py, from a base time.\<close>

definition sample_transactions :: "int \<Rightarrow> raw_tx list" where
  "sample_transactions base_time =
     [\<lparr>r_amount = Some (PyNum 12000), r_type = Some ''out'',
       r_destination = Some ''known_wallet'', r_timestamp = Some base_time\<rparr>,
      \<lparr>r_amount = Some (PyNum 500), r_type = Some ''in'',
       r_destination = Some ''friend_wallet'', r_timestamp = Some (base_time + 5000000)\<rparr>,
      \<lparr>r_amount = Some (PyNum 300), r_type = Some ''out'',
       r_destination = Some ''unknown_wallet'', r_timestamp = Some (base_time + 10000000)\<rparr>,
      \<lparr>r_amount = Some (PyNum 15000), r_type = Some ''out'',
       r_destination = Some ''suspicious_address'', r_timestamp = Some (base_time + 20000000)\<rparr>,
      \<lparr>r_amount = Some (PyNum 750), r_type = Some ''in'',
       r_destination = Some ''known_wallet'', r_timestamp = Some (base_time + 40000000)\<rparr>,
      \<lparr>r_amount = Some (PyNum 200), r_type = Some ''out'',
       r_destination = Some ''scam_target'', r_timestamp = Some (base_time + 55000000)\<rparr>]"

text \<open>An ordinary inbound transfer with a timestamp, and two lists of 200 transactions that
  share it: 200 separate dictionaries, and one dictionary at 200 positions
  (\<^verbatim>\<open>[tx] * 200\<close>).\<close>

definition stamped_tx :: raw_tx where
  "stamped_tx =
     \<lparr>r_amount = Some (PyNum 500), r_type = Some ''in'',
      r_destination = Some ''friend_wallet'', r_timestamp = Some 0\<rparr>"

definition burst_200 :: oi_WalletRiskEvaluator where
  "burst_200 = \<lparr>oi_store = (\<lambda>r. stamped_tx), oi_transactions = [0..<200]\<rparr>"

definition aliased_200 :: oi_WalletRiskEvaluator where
  "aliased_200 = \<lparr>oi_store = (\<lambda>r. stamped_tx), oi_transactions = replicate 200 0\<rparr>"


text \<open>Scenario B of the specification, as the dictionary the caller passes: for the stacking
  and the indexing variant, and for the constructor of the configurable one.\<close>

definition scenario_B :: raw_tx where
  "scenario_B =
     \<lparr>r_amount = Some (PyNum 300), r_type = Some ''out'',
      r_destination = Some ''unknown_wallet'', r_timestamp = None\<rparr>"

definition scenario_B_dict :: tx_dict where
  "scenario_B_dict =
     \<lparr>d_amount = Some (IntVal 300), d_type = Some ''out'',
      d_destination = Some ''unknown_wallet''\<rparr>"

text \<open>For the constructor: a dictionary with no key at all, and an ordinary transfer with
  the amount given.\<close>

definition no_keys :: tx_dict where
  "no_keys = \<lparr>d_amount = None, d_type = None, d_destination = None\<rparr>"

definition transfer_with :: "pyval \<Rightarrow> tx_dict" where
  "transfer_with v =
     \<lparr>d_amount = Some v, d_type = Some ''in'', d_destination = Some ''known_wallet''\<rparr>"

text \<open>An instance of the parameters for inputs that never reach them, that is, inputs with
  no number given as a string and no string outside ASCII.\<close>

definition ascii_builtins :: builtins where
  "ascii_builtins =
     \<lparr>float_of_str = (\<lambda>s. None), int_of_str = (\<lambda>s. None), lower_non_ascii = (\<lambda>s. s)\<rparr>"

text \<open>Three sanitised transactions, one for each rule of the cascade.\<close>

definition tx_large_out :: Tx where
  "tx_large_out = \<lparr>amount = Finite 12000, type = ''out'', destination = ''known_wallet''\<rparr>"

definition tx_unknown :: Tx where
  "tx_unknown = \<lparr>amount = Finite 300, type = ''out'', destination = ''unknown_wallet''\<rparr>"

definition tx_plain :: Tx where
  "tx_plain = \<lparr>amount = Finite 500, type = ''in'', destination = ''friend_wallet''\<rparr>"

section \<open>Lemmas on the configurable evaluator\<close>

subsection \<open>The plain loop\<close>

lemma evaluate_loop_le_max: "evaluate_loop self tot txs \<le> max_score self"
  by (induction txs arbitrary: tot) (auto simp: Let_def)

lemma evaluate_tx_transactions:
  "evaluate_tx (self\<lparr>transactions := txs\<rparr>) tx = evaluate_tx self tx"
  by (simp add: evaluate_tx_def score_tx_def)

lemma evaluate_singleton:
  "evaluate (self\<lparr>transactions := [tx]\<rparr>) = min (max_score self) (evaluate_tx self tx)"
  by (simp add: evaluate_def Let_def evaluate_tx_transactions)

lemma evaluate_tx_nonneg:
  assumes "0 \<le> score_large_out self" "0 \<le> score_unknown_dest self" "0 \<le> score_baseline self"
  shows "0 \<le> evaluate_tx self tx"
  using assms by (simp add: evaluate_tx_def score_tx_def)

lemma sum_scores_nonneg:
  assumes "0 \<le> score_large_out self" "0 \<le> score_unknown_dest self" "0 \<le> score_baseline self"
  shows "0 \<le> running_sum self txs"
  unfolding running_sum_def
  by (rule sum_list_nonneg) (auto simp: evaluate_tx_nonneg [OF assms])

lemma running_sum_snoc: "running_sum self (L @ [t]) = running_sum self L + evaluate_tx self t"
  by (simp add: running_sum_def)

text \<open>With scores that are not negative, a total that has reached the maximum stays there,
  so leaving the loop early changes nothing.\<close>

lemma evaluate_loop_min:
  assumes "0 \<le> score_large_out self" "0 \<le> score_unknown_dest self" "0 \<le> score_baseline self"
  shows "evaluate_loop self tot txs = min (max_score self) (tot + running_sum self txs)"
proof (induction txs arbitrary: tot)
  case Nil
  show ?case by (simp add: running_sum_def)
next
  case (Cons tx rest)
  have rest: "0 \<le> running_sum self rest"
    by (rule sum_scores_nonneg [OF assms])
  show ?case
  proof (cases "max_score self \<le> tot + evaluate_tx self tx")
    case True
    with rest show ?thesis by (simp add: Let_def running_sum_def)
  next
    case False
    with Cons.IH [of "tot + evaluate_tx self tx"] show ?thesis
      by (simp add: Let_def add.assoc running_sum_def)
  qed
qed

subsection \<open>The baseline as a lower bound\<close>

lemma evaluate_tx_ge_baseline:
  assumes "score_baseline self \<le> score_large_out self"
    "score_baseline self \<le> score_unknown_dest self"
  shows "score_baseline self \<le> evaluate_tx self tx"
  using assms by (simp add: evaluate_tx_def score_tx_def)

lemma running_sum_ge_baseline:
  assumes "score_baseline self \<le> score_large_out self"
    "score_baseline self \<le> score_unknown_dest self" "0 \<le> score_baseline self" "txs \<noteq> []"
  shows "score_baseline self \<le> running_sum self txs"
proof (cases txs)
  case Nil
  with assms(4) show ?thesis by simp
next
  case (Cons tx rest)
  have "0 \<le> running_sum self rest"
    using assms(1-3) by (intro sum_scores_nonneg) auto
  with evaluate_tx_ge_baseline [OF assms(1,2), of tx] Cons show ?thesis
    by (simp add: running_sum_def)
qed

lemma evaluate_ge_baseline:
  assumes "score_baseline self \<le> score_large_out self"
    "score_baseline self \<le> score_unknown_dest self" "0 \<le> score_baseline self"
    "transactions self \<noteq> []"
  shows "min (max_score self) (score_baseline self) \<le> evaluate self"
proof -
  have "evaluate self = min (max_score self) (running_sum self (transactions self))"
    using assms(1-3) by (simp add: evaluate_def evaluate_loop_min)
  with running_sum_ge_baseline [OF assms] show ?thesis by simp
qed

subsection \<open>The detailed loop\<close>

text \<open>The two loops walk the list in step: the detailed loop returns the total of the plain
  one, and that total is the clamped sum of the scores it has appended.\<close>

lemma evaluate_detailed_loop_inv:
  "evaluate_detailed_loop self tot ds txs = (t, ds') \<Longrightarrow>
     t = evaluate_loop self tot txs \<and>
     (\<exists>new. ds' = ds @ new \<and>
        t = min (max_score self) (tot + sum_list (map (\<lambda>(tx, s, why). s) new)))"
proof (induction txs arbitrary: tot ds)
  case Nil
  then show ?case by auto
next
  case (Cons tx rest)
  obtain s why where sw: "score_tx self tx = (s, why)" by (cases "score_tx self tx")
  show ?case
  proof (cases "max_score self \<le> tot + s")
    case True
    with Cons.prems sw have "t = max_score self" "ds' = ds @ [(tx, s, why)]"
      by (simp_all add: Let_def)
    with True sw show ?thesis by (simp add: Let_def evaluate_tx_def)
  next
    case False
    with Cons.prems sw
    have "evaluate_detailed_loop self (tot + s) (ds @ [(tx, s, why)]) rest = (t, ds')"
      by (simp add: Let_def)
    from Cons.IH [OF this] obtain new where
      "t = evaluate_loop self (tot + s) rest" "ds' = (ds @ [(tx, s, why)]) @ new"
      "t = min (max_score self) (tot + s + sum_list (map (\<lambda>(tx, s, why). s) new))"
      by blast
    with False sw show ?thesis
      by (simp add: Let_def evaluate_tx_def add.assoc)
  qed
qed

text \<open>The details are those of a prefix of the list: the transactions up to the first one
  at which the running total reaches the maximum, that one included.\<close>

lemma evaluate_detailed_loop_prefix:
  "evaluate_detailed_loop self tot ds txs = (t, ds') \<Longrightarrow>
     \<exists>n\<le>length txs.
       ds' = ds @ map (\<lambda>tx. (tx, score_tx self tx)) (take n txs) \<and>
       t = min (max_score self) (tot + running_sum self (take n txs)) \<and>
       (txs \<noteq> [] \<longrightarrow> 0 < n) \<and>
       (n < length txs \<longrightarrow> max_score self \<le> tot + running_sum self (take n txs)) \<and>
       (\<forall>k. 0 < k \<and> k < n \<longrightarrow> tot + running_sum self (take k txs) < max_score self)"
proof (induction txs arbitrary: tot ds)
  case Nil
  then show ?case by (auto simp: running_sum_def)
next
  case (Cons tx rest)
  obtain s why where sw: "score_tx self tx = (s, why)" by (cases "score_tx self tx")
  then have s: "evaluate_tx self tx = s" by (simp add: evaluate_tx_def)
  show ?case
  proof (cases "max_score self \<le> tot + s")
    case True
    with Cons.prems sw have "t = max_score self" "ds' = ds @ [(tx, s, why)]"
      by (simp_all add: Let_def)
    with True sw s show ?thesis
      by (intro exI [of _ 1]) (simp add: running_sum_def)
  next
    case False
    with Cons.prems sw
    have "evaluate_detailed_loop self (tot + s) (ds @ [(tx, s, why)]) rest = (t, ds')"
      by (simp add: Let_def)
    from Cons.IH [OF this] obtain n where n: "n \<le> length rest"
      "ds' = (ds @ [(tx, s, why)]) @ map (\<lambda>tx. (tx, score_tx self tx)) (take n rest)"
      "t = min (max_score self) (tot + s + running_sum self (take n rest))"
      "n < length rest \<longrightarrow> max_score self \<le> tot + s + running_sum self (take n rest)"
      "\<forall>k. 0 < k \<and> k < n \<longrightarrow> tot + s + running_sum self (take k rest) < max_score self"
      by blast
    have small: "tot + running_sum self (take k (tx # rest)) < max_score self"
      if "0 < k" "k < Suc n" for k
    proof (cases k)
      case 0
      with that show ?thesis by simp
    next
      case (Suc j)
      show ?thesis
      proof (cases "j = 0")
        case True
        with Suc False s show ?thesis by (simp add: running_sum_def)
      next
        case False
        with Suc that n(5) have "tot + s + running_sum self (take j rest) < max_score self"
          by simp
        with Suc s show ?thesis by (simp add: running_sum_def add.assoc)
      qed
    qed
    show ?thesis
      apply (intro exI [of _ "Suc n"])
      using n(1-4) sw s small by (simp add: running_sum_def add.assoc)
  qed
qed

section \<open>Lemmas on the stacking evaluator\<close>

subsection \<open>Scores and totality\<close>

lemma oi_evaluate_tx_ge5: "oi_evaluate_tx self tx = Inr s \<Longrightarrow> 5 \<le> s"
  by (auto simp: oi_evaluate_tx_def Let_def split: option.splits pynum.splits)

lemma oi_evaluate_loop_ge:
  "oi_evaluate_loop self score txs = Inr t \<Longrightarrow> score + 5 * int (length txs) \<le> t"
proof (induction txs arbitrary: score)
  case Nil
  then show ?case by simp
next
  case (Cons tx rest)
  then obtain s where s: "oi_evaluate_tx self tx = Inr s"
    and r: "oi_evaluate_loop self (score + s) rest = Inr t"
    by (auto split: sum.splits)
  from Cons.IH [OF r] oi_evaluate_tx_ge5 [OF s] show ?case by simp
qed

lemma oi_evaluate_range: "oi_evaluate self = Inr s \<Longrightarrow> 0 \<le> s \<and> s \<le> 100"
  by (auto simp: oi_evaluate_def split: sum.splits dest: oi_evaluate_loop_ge)

lemma oi_evaluate_nonempty:
  assumes "oi_evaluate self = Inr s" "oi_transactions self \<noteq> []"
  shows "5 \<le> s"
proof -
  from assms(1) obtain t where t: "oi_evaluate_loop self 0 (oi_transactions self) = Inr t"
    and s: "s = min 100 t"
    by (auto simp: oi_evaluate_def split: sum.splits)
  from assms(2) have "1 \<le> length (oi_transactions self)"
    by (cases "oi_transactions self") auto
  with oi_evaluate_loop_ge [OF t] have "5 \<le> t" by simp
  with s show ?thesis by simp
qed

lemma oi_evaluate_tx_total:
  "r_amount (oi_store self tx) \<noteq> Some PyNone \<Longrightarrow> \<exists>s. oi_evaluate_tx self tx = Inr s"
  by (auto simp: oi_evaluate_tx_def Let_def split: option.splits pynum.splits)

lemma oi_evaluate_loop_total:
  "\<forall>tx\<in>set txs. r_amount (oi_store self tx) \<noteq> Some PyNone
     \<Longrightarrow> \<exists>t. oi_evaluate_loop self score txs = Inr t"
proof (induction txs arbitrary: score)
  case Nil
  then show ?case by simp
next
  case (Cons tx rest)
  then obtain s where "oi_evaluate_tx self tx = Inr s"
    using oi_evaluate_tx_total [of self tx] by auto
  with Cons show ?case by simp
qed

lemma oi_evaluate_total:
  "\<forall>tx\<in>set (oi_transactions self). r_amount (oi_store self tx) \<noteq> Some PyNone
     \<Longrightarrow> \<exists>s. oi_evaluate self = Inr s"
  using oi_evaluate_loop_total [of "oi_transactions self" self 0]
  by (auto simp: oi_evaluate_def)

subsection \<open>The high-frequency count\<close>

text \<open>The counting loop counts the entries of the list that are another object and carry a
  timestamp less than a minute away.\<close>

lemma oi_count_loop_filter:
  "oi_count_loop st tx t c txs =
     c + length (filter (\<lambda>other. other \<noteq> tx \<and>
           (case r_timestamp (st other) of None \<Rightarrow> False
            | Some ot \<Rightarrow> \<bar>t - ot\<bar> < 60000000)) txs)"
  by (induction txs arbitrary: c) (auto simp: within_minute_def split: option.splits)

lemma oi_is_high_frequency_count:
  "oi_is_high_frequency self tx =
     (case r_timestamp (oi_store self tx) of
        None \<Rightarrow> False
      | Some t \<Rightarrow>
          3 \<le> length (filter (\<lambda>other. other \<noteq> tx \<and>
                 (case r_timestamp (oi_store self other) of None \<Rightarrow> False
                  | Some ot \<Rightarrow> \<bar>t - ot\<bar> < 60000000)) (oi_transactions self)))"
  by (simp add: oi_is_high_frequency_def oi_count_loop_filter split: option.splits)

text \<open>The score is the sum of the contributions of the four rules, or 5 when none
  contributes.\<close>

lemma oi_evaluate_tx_sum:
  "(case r_amount (oi_store self tx) of None \<Rightarrow> PyNum 0 | Some v \<Rightarrow> v) = PyNum a \<Longrightarrow>
   oi_evaluate_tx self tx =
     Inr (let p = (if a > 10000 \<and> r_type (oi_store self tx) = Some ''out'' then 20 else 0)
                + (if startswith (get_destination (oi_store self tx)) ''unknown_''
                   then 15 else 0)
                + (if oi_is_high_frequency self tx then 10 else 0)
                + (if oi_is_blacklisted (get_destination (oi_store self tx)) then 25 else 0)
          in if p = 0 then 5 else p)"
  by (simp add: oi_evaluate_tx_def Let_def)

lemma length_filter_others:
  "distinct xs \<Longrightarrow> x \<in> set xs \<Longrightarrow> length (filter (\<lambda>y. y \<noteq> x) xs) = length xs - 1"
proof (induction xs)
  case Nil
  then show ?case by simp
next
  case (Cons a xs)
  show ?case
  proof (cases "a = x")
    case True
    with Cons.prems have "filter (\<lambda>y. y \<noteq> x) xs = xs"
      by (auto simp: filter_id_conv)
    with True show ?thesis by simp
  next
    case False
    with Cons.prems have "x \<in> set xs" "distinct xs" by auto
    with Cons.IH have "length (filter (\<lambda>y. y \<noteq> x) xs) = length xs - 1" by simp
    moreover from \<open>x \<in> set xs\<close> have "0 < length xs" by (cases xs) auto
    ultimately show ?thesis using False by simp
  qed
qed

lemma burst_all_high_frequency:
  assumes "distinct (oi_transactions self)" "4 \<le> length (oi_transactions self)"
    "\<forall>other\<in>set (oi_transactions self). r_timestamp (oi_store self other) = Some t"
    "tx \<in> set (oi_transactions self)"
  shows "oi_is_high_frequency self tx"
proof -
  let ?P = "\<lambda>other. other \<noteq> tx \<and>
           (case r_timestamp (oi_store self other) of None \<Rightarrow> False
            | Some ot \<Rightarrow> \<bar>t - ot\<bar> < 60000000)"
  have "filter ?P (oi_transactions self) = filter (\<lambda>other. other \<noteq> tx) (oi_transactions self)"
    using assms(3) by (intro filter_cong) auto
  moreover have "length (filter (\<lambda>other. other \<noteq> tx) (oi_transactions self))
      = length (oi_transactions self) - 1"
    using assms(1,4) by (rule length_filter_others)
  ultimately have "3 \<le> length (filter ?P (oi_transactions self))"
    using assms(2) by simp
  with assms(3,4) show ?thesis
    by (simp add: oi_is_high_frequency_count)
qed

subsection \<open>Appending a transaction\<close>

lemma oi_is_high_frequency_append:
  "oi_is_high_frequency (self\<lparr>oi_transactions := L\<rparr>) tx
     \<Longrightarrow> oi_is_high_frequency (self\<lparr>oi_transactions := L @ [t]\<rparr>) tx"
  by (auto simp: oi_is_high_frequency_count split: option.splits)

lemma oi_evaluate_tx_append:
  assumes "oi_evaluate_tx (self\<lparr>oi_transactions := L\<rparr>) tx = Inr a"
  shows "\<exists>b. oi_evaluate_tx (self\<lparr>oi_transactions := L @ [t]\<rparr>) tx = Inr b \<and> a \<le> b"
proof -
  from assms obtain v where
    v: "(case r_amount (oi_store self tx) of None \<Rightarrow> PyNum 0 | Some v \<Rightarrow> v) = PyNum v"
    by (auto simp: oi_evaluate_tx_def split: pynum.splits)
  show ?thesis
  proof (cases "oi_is_high_frequency (self\<lparr>oi_transactions := L\<rparr>) tx")
    case True
    then have "oi_is_high_frequency (self\<lparr>oi_transactions := L @ [t]\<rparr>) tx"
      by (rule oi_is_high_frequency_append)
    with True assms v show ?thesis
      by (simp add: oi_evaluate_tx_sum Let_def)
  next
    case False
    with assms v show ?thesis
      by (auto simp: oi_evaluate_tx_sum Let_def)
  qed
qed

lemma oi_evaluate_loop_mono:
  assumes "oi_evaluate_loop (self\<lparr>oi_transactions := L\<rparr>) sc xs = Inr a" "sc \<le> sc'"
  shows "\<exists>b. oi_evaluate_loop (self\<lparr>oi_transactions := L @ [t]\<rparr>) sc' xs = Inr b \<and> a \<le> b"
  using assms
proof (induction xs arbitrary: sc sc')
  case Nil
  then show ?case by simp
next
  case (Cons x xs)
  from Cons.prems(1) obtain s where
    s: "oi_evaluate_tx (self\<lparr>oi_transactions := L\<rparr>) x = Inr s"
    and r: "oi_evaluate_loop (self\<lparr>oi_transactions := L\<rparr>) (sc + s) xs = Inr a"
    by (auto split: sum.splits)
  from oi_evaluate_tx_append [OF s] obtain s' where
    s': "oi_evaluate_tx (self\<lparr>oi_transactions := L @ [t]\<rparr>) x = Inr s'" "s \<le> s'"
    by blast
  with Cons.prems(2) have "sc + s \<le> sc' + s'" by simp
  from Cons.IH [OF r this] s' show ?case by simp
qed

lemma oi_evaluate_loop_snoc:
  "oi_evaluate_loop self sc (xs @ [x]) =
     (case oi_evaluate_loop self sc xs of
        Inl e \<Rightarrow> Inl e
      | Inr m \<Rightarrow> (case oi_evaluate_tx self x of Inl e \<Rightarrow> Inl e | Inr s \<Rightarrow> Inr (m + s)))"
  by (induction xs arbitrary: sc) (auto split: sum.splits)

lemma oi_running_sum_append:
  assumes "oi_running_sum (self\<lparr>oi_transactions := L\<rparr>) = Inr a"
    "oi_running_sum (self\<lparr>oi_transactions := L @ [t]\<rparr>) = Inr b"
  shows "a \<le> b"
proof -
  from assms(1) have "oi_evaluate_loop (self\<lparr>oi_transactions := L\<rparr>) 0 L = Inr a"
    by (simp add: oi_running_sum_def)
  from oi_evaluate_loop_mono [OF this order_refl] obtain m where
    m: "oi_evaluate_loop (self\<lparr>oi_transactions := L @ [t]\<rparr>) 0 L = Inr m" "a \<le> m"
    by blast
  with assms(2) obtain s where
    "oi_evaluate_tx (self\<lparr>oi_transactions := L @ [t]\<rparr>) t = Inr s" "b = m + s"
    by (auto simp: oi_running_sum_def oi_evaluate_loop_snoc split: sum.splits)
  with m oi_evaluate_tx_ge5 [of "self\<lparr>oi_transactions := L @ [t]\<rparr>" t s] show ?thesis
    by simp
qed

section \<open>Lemmas on the indexing evaluator\<close>

lemma bd_evaluate_tx_ge5: "bd_evaluate_tx tx = Inr s \<Longrightarrow> 5 \<le> s"
  by (auto simp: bd_evaluate_tx_def bd_destination_rule_def
      split: option.splits pynum.splits if_splits)

lemma bd_evaluate_loop_ge:
  "bd_evaluate_loop score txs = Inr t \<Longrightarrow> score + 5 * int (length txs) \<le> t"
proof (induction txs arbitrary: score)
  case Nil
  then show ?case by simp
next
  case (Cons tx rest)
  then obtain s where s: "bd_evaluate_tx tx = Inr s"
    and r: "bd_evaluate_loop (score + s) rest = Inr t"
    by (auto split: sum.splits)
  from Cons.IH [OF r] bd_evaluate_tx_ge5 [OF s] show ?case by simp
qed

lemma bd_evaluate_nonempty:
  assumes "bd_evaluate txs = Inr s" "txs \<noteq> []"
  shows "5 \<le> s"
proof -
  from assms(1) obtain t where t: "bd_evaluate_loop 0 txs = Inr t" and s: "s = min 100 t"
    by (auto simp: bd_evaluate_def split: sum.splits)
  from assms(2) have "1 \<le> length txs" by (cases txs) auto
  with bd_evaluate_loop_ge [OF t] have "5 \<le> t" by simp
  with s show ?thesis by simp
qed

section \<open>Lemmas on the constructor\<close>

subsection \<open>Conversion of integers\<close>

lemma float_of_int_small: "\<bar>n\<bar> < 2 ^ 53 \<Longrightarrow> float_of_int n = Inr (Finite (of_int n))"
  by (simp add: float_of_int_def Let_def nat_less_iff)

lemma bit_length_bounds:
  "0 < n \<Longrightarrow> 2 ^ (bit_length n - 1) \<le> n \<and> n < 2 ^ bit_length n"
proof (induction n rule: bit_length.induct)
  case (1 n)
  show ?case
  proof (cases "n div 2 = 0")
    case True
    with "1.prems" have "n = 1" by presburger
    then show ?thesis by simp
  next
    case False
    with "1.IH" "1.prems" have ih: "2 ^ (bit_length (n div 2) - 1) \<le> n div 2"
      "n div 2 < 2 ^ bit_length (n div 2)"
      by simp_all
    from False have pos: "0 < bit_length (n div 2)"
      by (subst bit_length.simps) simp
    have bl: "bit_length n = Suc (bit_length (n div 2))"
      using "1.prems" by (subst bit_length.simps) simp
    from pos have "(2::nat) ^ bit_length (n div 2) = 2 * 2 ^ (bit_length (n div 2) - 1)"
      by (cases "bit_length (n div 2)") simp_all
    with ih(1) have "2 ^ bit_length (n div 2) \<le> 2 * (n div 2)" by simp
    then have lo: "2 ^ bit_length (n div 2) \<le> n" by presburger
    from ih(2) have "n < 2 * 2 ^ bit_length (n div 2)" by presburger
    with lo bl show ?thesis by simp
  qed
qed

text \<open>An integer of magnitude \<open>2 ^ 1024\<close> or more has no double.\<close>

lemma float_of_int_overflow:
  assumes "2 ^ 1024 \<le> \<bar>n\<bar>"
  shows "float_of_int n = Inl OverflowError"
proof -
  define m where "m = nat \<bar>n\<bar>"
  define e where "e = bit_length m - 53"
  define q where "q = m div 2 ^ e"
  have "\<bar>n\<bar> = int m" unfolding m_def by simp
  with assms have "int (2 ^ 1024) \<le> int m" by simp
  then have m: "2 ^ 1024 \<le> m" by (rule iffD1 [OF of_nat_le_iff])
  have p53: "(2::nat) ^ 53 \<le> 2 ^ 1024" by (rule power_increasing) simp_all
  with m have big: "\<not> m < 2 ^ 53" by (meson le_trans not_le)
  have "(0::nat) < 2 ^ 1024" by (rule zero_less_power) simp
  then have mpos: "0 < m" using m by (rule less_le_trans)
  from bit_length_bounds [OF mpos] have b: "2 ^ (bit_length m - 1) \<le> m" "m < 2 ^ bit_length m"
    by blast+
  from m b(2) have "(2::nat) ^ 1024 < 2 ^ bit_length m" by (rule le_less_trans)
  then have bl: "1024 < bit_length m" by (rule iffD1 [OF power_strict_increasing_iff, rotated]) simp
  then have e: "bit_length m - 1 = e + 52" unfolding e_def by arith
  have e1024: "1024 \<le> e + 52" using bl e by arith
  have "2 ^ 52 * 2 ^ e \<le> m" using b(1) unfolding e by (simp only: power_add mult.commute)
  then have "2 ^ 52 \<le> q" unfolding q_def
    by (simp only: less_eq_div_iff_mult_less_eq zero_less_power zero_less_numeral)
  then have "2 ^ 52 * 2 ^ e \<le> q * 2 ^ e" by (rule mult_le_mono1)
  moreover have "(2::nat) ^ 1024 \<le> 2 ^ (e + 52)"
    using e1024 by (intro power_increasing) simp_all
  then have "(2::nat) ^ 1024 \<le> 2 ^ 52 * 2 ^ e" by (simp only: power_add mult.commute)
  ultimately have v: "2 ^ 1024 \<le> q * 2 ^ e" by (rule le_trans [rotated])
  have "q * 2 ^ e \<le> (q + 1) * 2 ^ e" by (rule mult_le_mono1) simp
  with v have v': "2 ^ 1024 \<le> (q + 1) * 2 ^ e" by (rule le_trans)
  have "float_of_int n =
      (if (if m mod 2 ^ e > 2 ^ (e - 1) \<or> (m mod 2 ^ e = 2 ^ (e - 1) \<and> odd q) then q + 1 else q)
            * 2 ^ e \<ge> 2 ^ 1024 then Inl OverflowError
       else Inr (Finite (if n < 0
         then - of_nat ((if m mod 2 ^ e > 2 ^ (e - 1) \<or> (m mod 2 ^ e = 2 ^ (e - 1) \<and> odd q) then q + 1 else q) * 2 ^ e)
         else of_nat ((if m mod 2 ^ e > 2 ^ (e - 1) \<or> (m mod 2 ^ e = 2 ^ (e - 1) \<and> odd q) then q + 1 else q) * 2 ^ e))))"
    unfolding float_of_int_def Let_def m_def [symmetric] e_def [symmetric] q_def [symmetric]
    using big by (simp only: if_False)
  also have "\<dots> = Inl OverflowError"
    using v v' by (simp only: if_True simp_thms split: if_split)
  finally show ?thesis .
qed

subsection \<open>The keyword arguments\<close>

lemma init_config_default: "init_config py default_args = Inr default_config"
  by (simp add: init_config_def default_args_def default_config_def)

text \<open>A float threshold and integer scores are stored as they are.\<close>

lemma init_config_typed:
  "init_config py
     \<lparr>arg_large_out_threshold = FloatVal f, arg_score_large_out = IntVal a,
      arg_score_unknown_dest = IntVal b, arg_score_baseline = IntVal c,
      arg_max_score = IntVal d\<rparr>
   = Inr \<lparr>large_out_threshold = f, score_large_out = a, score_unknown_dest = b,
         score_baseline = c, max_score = d\<rparr>"
  by (simp add: init_config_def)

subsection \<open>The sanitising loop\<close>

text \<open>When \<^verbatim>\<open>float\<close> accepts every amount, the loop returns one transaction for each
  dictionary, in order.\<close>

lemma sanitize_all_map:
  assumes "\<forall>t\<in>set ts. \<exists>f. amount_of py t = Inr f"
  shows "sanitize_all py acc ts =
     Inr (acc @ map (\<lambda>t. \<lparr>amount = projr (amount_of py t),
                           type = py_lower py (case d_type t of None \<Rightarrow> [] | Some s \<Rightarrow> s),
                           destination = (case d_destination t of None \<Rightarrow> [] | Some d \<Rightarrow> d)\<rparr>)
                    ts)"
  using assms
proof (induction ts arbitrary: acc)
  case Nil
  then show ?case by simp
next
  case (Cons t ts)
  then obtain f where "amount_of py t = Inr f" by auto
  then have "sanitize py t =
     Inr \<lparr>amount = projr (amount_of py t),
          type = py_lower py (case d_type t of None \<Rightarrow> [] | Some s \<Rightarrow> s),
          destination = (case d_destination t of None \<Rightarrow> [] | Some d \<Rightarrow> d)\<rparr>"
    by (simp add: sanitize_def)
  with Cons show ?case by simp
qed


subsection \<open>Evaluated inputs of the constructor\<close>

lemma sanitize_no_keys:
  "sanitize py \<lparr>d_amount = None, d_type = None, d_destination = None\<rparr>
     = Inr \<lparr>amount = Finite 0, type = [], destination = []\<rparr>"
  by (simp add: sanitize_def amount_of_def py_lower_def)

lemma sanitize_scenario_B: "sanitize py scenario_B_dict = Inr tx_unknown"
  by (simp add: sanitize_def amount_of_def scenario_B_dict_def tx_unknown_def
      float_of_int_small py_lower_def lower_char_def)

lemma evaluate_scenario_B: "evaluate (evaluator_of default_config [tx_unknown]) = 15"
  by code_simp

lemma risk_score_scenario_B: "risk_score py default_args [scenario_B_dict] = Inr 15"
  by (simp add: risk_score_def init_def init_config_default sanitize_scenario_B
      evaluate_scenario_B)


section \<open>The claims\<close>

subsection \<open>Range of the score\<close>

text \<open>
  Claim C1. For every transaction list and every configuration, \<open>evaluate\<close> is to return
  an integer between 0 and \<open>max_score\<close>, and 0 on the empty list; the docstring of
  \<open>evaluate\<close> promises the same range. The code returns \<open>- 1\<close> for the empty list when
  constructed with \<open>max_score\<close> \<open>- 1\<close>, and \<open>- 5\<close> for one dictionary without keys when
  constructed with \<open>score_baseline\<close> \<open>- 5\<close>.
\<close>

theorem evaluate_below_range:
  "risk_score py (default_args\<lparr>arg_max_score := IntVal (- 1)\<rparr>) [] = Inr (- 1)
   \<and> risk_score py (default_args\<lparr>arg_score_baseline := IntVal (- 5)\<rparr>) [no_keys] = Inr (- 5)"
proof -
  have c1: "init_config py (default_args\<lparr>arg_max_score := IntVal (- 1)\<rparr>)
      = Inr (default_config\<lparr>max_score := - 1\<rparr>)"
    by (simp add: init_config_def default_args_def default_config_def)
  have e1: "evaluate (evaluator_of (default_config\<lparr>max_score := - 1\<rparr>) []) = - 1"
    by code_simp
  have c2: "init_config py (default_args\<lparr>arg_score_baseline := IntVal (- 5)\<rparr>)
      = Inr (default_config\<lparr>score_baseline := - 5\<rparr>)"
    by (simp add: init_config_def default_args_def default_config_def)
  have e2: "evaluate (evaluator_of (default_config\<lparr>score_baseline := - 5\<rparr>)
      [\<lparr>amount = Finite 0, type = [], destination = []\<rparr>]) = - 5"
    by code_simp
  show ?thesis
    by (simp add: risk_score_def init_def c1 e1 c2 e2 no_keys_def sanitize_no_keys)
qed

text \<open>
  Where the range holds: the result is never above \<open>max_score\<close>; it is not negative when
  \<open>max_score\<close> and the three rule scores are not negative; the empty list gives
  \<open>min max_score 0\<close>. In the stacking variant a returned score lies between 0 and 100.
\<close>

lemma evaluate_range:
  "evaluate self \<le> max_score self
   \<and> (0 \<le> max_score self \<and> 0 \<le> score_large_out self \<and> 0 \<le> score_unknown_dest self
        \<and> 0 \<le> score_baseline self \<longrightarrow> 0 \<le> evaluate self)
   \<and> evaluate (self\<lparr>transactions := []\<rparr>) = min (max_score self) 0
   \<and> (oi_evaluate oself = Inr s \<longrightarrow> 0 \<le> s \<and> s \<le> 100)
   \<and> oi_evaluate (oself\<lparr>oi_transactions := []\<rparr>) = Inr 0"
proof -
  have "evaluate self \<le> max_score self"
    by (simp add: evaluate_def evaluate_loop_le_max)
  moreover have "0 \<le> evaluate self"
    if "0 \<le> max_score self" "0 \<le> score_large_out self" "0 \<le> score_unknown_dest self"
      "0 \<le> score_baseline self"
  proof -
    have "0 \<le> running_sum self (transactions self)"
      by (rule sum_scores_nonneg) (rule that)+
    with that show ?thesis by (simp add: evaluate_def evaluate_loop_min)
  qed
  moreover have "evaluate (self\<lparr>transactions := []\<rparr>) = min (max_score self) 0"
    by (simp add: evaluate_def)
  moreover have "0 \<le> s \<and> s \<le> 100" if "oi_evaluate oself = Inr s"
    using that by (rule oi_evaluate_range)
  moreover have "oi_evaluate (oself\<lparr>oi_transactions := []\<rparr>) = Inr 0"
    by (simp add: oi_evaluate_def)
  ultimately show ?thesis by blast
qed


subsection \<open>The rule cascade\<close>

text \<open>
  Claim C2, amended. In the two variants that have a cascade, the score of one transaction
  is that of the first rule that matches, and of that rule alone. In the configurable
  evaluator, for every configuration: \<open>score_large_out\<close> for an outbound transfer above the
  threshold, else \<open>score_unknown_dest\<close> for a destination that matches the pattern, else
  \<open>score_baseline\<close>; a list of one transaction evaluates to that score clamped to
  \<open>max_score\<close>, and under the defaults no clamping takes place. In the indexing variant,
  for a dictionary with its three keys: 20 for an outbound transfer above 10000, else 15
  for a destination that starts with \<^verbatim>\<open>unknown_\<close>, else 5. Scenario B scores 15 in both.
\<close>

theorem rule_cascade_first_match:
  "evaluate_tx self tx =
     (if type tx = ''out'' \<and> float_gt (amount tx) (large_out_threshold self)
        then score_large_out self
      else if unknown_re_match (destination tx) then score_unknown_dest self
      else score_baseline self)
   \<and> evaluate (self\<lparr>transactions := [tx]\<rparr>) = min (max_score self) (evaluate_tx self tx)
   \<and> evaluate (evaluator_of default_config [tx])
       = evaluate_tx (evaluator_of default_config [tx]) tx
   \<and> risk_score py default_args [scenario_B_dict] = Inr 15
   \<and> (r_amount btx = Some (PyNum a) \<and> r_type btx = Some ty \<and> r_destination btx = Some d
        \<longrightarrow> bd_evaluate_tx btx =
              Inr (if a > 10000 \<and> ty = ''out'' then 20
                   else if startswith d ''unknown_'' then 15 else 5))
   \<and> bd_evaluate [scenario_B] = Inr 15"
proof -
  have "evaluate_tx self tx =
     (if type tx = ''out'' \<and> float_gt (amount tx) (large_out_threshold self)
        then score_large_out self
      else if unknown_re_match (destination tx) then score_unknown_dest self
      else score_baseline self)"
    by (simp add: evaluate_tx_def score_tx_def)
  moreover have "evaluate (evaluator_of default_config [tx])
       = evaluate_tx (evaluator_of default_config [tx]) tx"
    by (simp add: evaluate_def Let_def evaluator_of_def default_config_def evaluate_tx_def
        score_tx_def)
  moreover have "bd_evaluate_tx btx =
              Inr (if a > 10000 \<and> ty = ''out'' then 20
                   else if startswith d ''unknown_'' then 15 else 5)"
    if "r_amount btx = Some (PyNum a)" "r_type btx = Some ty" "r_destination btx = Some d"
    using that by (simp add: bd_evaluate_tx_def bd_destination_rule_def)
  moreover have "bd_evaluate [scenario_B] = Inr 15"
    by code_simp
  ultimately show ?thesis
    using risk_score_scenario_B [of py] evaluate_singleton [where self = self and tx = tx] by blast
qed

text \<open>
  Scenario B in the indexing variant, with the three keys present, and in the configurable
  one.
\<close>

theorem rule_cascade_first_match_witness:
  "r_amount scenario_B = Some (PyNum 300) \<and> r_type scenario_B = Some ''out''
   \<and> r_destination scenario_B = Some ''unknown_wallet''
   \<and> bd_evaluate_tx scenario_B = Inr 15
   \<and> risk_score ascii_builtins default_args [scenario_B_dict] = Inr 15"
proof -
  have h: "r_amount scenario_B = Some (PyNum 300)" "r_type scenario_B = Some ''out''"
    "r_destination scenario_B = Some ''unknown_wallet''"
    by (simp_all add: scenario_B_def)
  from rule_cascade_first_match [where btx = scenario_B and a = 300 and ty = "''out''"
      and d = "''unknown_wallet''" and py = ascii_builtins] h
  show ?thesis by simp
qed

text \<open>
  The stacking variant has no cascade: for Scenario B the unknown-destination rule adds 15
  and the blacklist rule 25, and the transaction scores 40.
\<close>

theorem rule_cascade_counterexample:
  "oi_evaluate_tx (oi_of_dicts [scenario_B]) 0 = Inr 40
   \<and> oi_evaluate (oi_of_dicts [scenario_B]) = Inr 40"
  by code_simp

subsection \<open>The early exit\<close>

text \<open>
  Claim C3, amended. For every transaction list and every configuration whose three rule
  scores are not negative, \<open>evaluate\<close> with its early exit returns what evaluating all
  transactions and clamping the sum afterwards returns.
\<close>

theorem evaluate_early_exit:
  assumes "0 \<le> score_large_out self" "0 \<le> score_unknown_dest self" "0 \<le> score_baseline self"
  shows "evaluate self = evaluate_all_then_clamp self"
  using assms by (simp add: evaluate_def evaluate_all_then_clamp_def evaluate_loop_min)

text \<open>
  Six large outbound transfers under the defaults: the loop leaves at the fifth, and both
  computations give 100.
\<close>

theorem evaluate_early_exit_witness:
  "0 \<le> score_large_out (evaluator_of default_config (replicate 6 tx_large_out))
   \<and> 0 \<le> score_unknown_dest (evaluator_of default_config (replicate 6 tx_large_out))
   \<and> 0 \<le> score_baseline (evaluator_of default_config (replicate 6 tx_large_out))
   \<and> evaluate (evaluator_of default_config (replicate 6 tx_large_out)) = 100
   \<and> evaluate_all_then_clamp (evaluator_of default_config (replicate 6 tx_large_out)) = 100"
proof -
  let ?X = "evaluator_of default_config (replicate 6 tx_large_out)"
  have h: "0 \<le> score_large_out ?X" "0 \<le> score_unknown_dest ?X" "0 \<le> score_baseline ?X"
    by (simp_all add: evaluator_of_def default_config_def)
  have e: "evaluate ?X = 100" by code_simp
  from evaluate_early_exit [OF h] e h show ?thesis by simp
qed

text \<open>
  With a negative rule score the two differ. Maximum 10, baseline \<open>- 20\<close>: the first
  transaction scores 15 and the loop returns 10 at once, while the sum of both scores is
  \<open>- 5\<close>.
\<close>

theorem evaluate_early_exit_counterexample:
  "evaluate (evaluator_of (default_config\<lparr>score_baseline := - 20, max_score := 10\<rparr>)
      [tx_unknown, tx_plain]) = 10
   \<and> evaluate_all_then_clamp
        (evaluator_of (default_config\<lparr>score_baseline := - 20, max_score := 10\<rparr>)
          [tx_unknown, tx_plain]) = - 5"
  by code_simp

subsection \<open>The detailed breakdown\<close>

text \<open>
  Claim C4. For every transaction list and every configuration, the scores that
  \<open>evaluate_detailed\<close> returns, summed and clamped to \<open>max_score\<close>, give the result of
  \<open>evaluate\<close>, and so does the total that \<open>evaluate_detailed\<close> returns.
\<close>

theorem evaluate_detailed_consistent:
  "min (max_score self) (sum_list (map (\<lambda>(tx, s, why). s) (snd (evaluate_detailed self))))
     = evaluate self
   \<and> fst (evaluate_detailed self) = evaluate self"
proof -
  obtain t ds where r: "evaluate_detailed self = (t, ds)"
    by (cases "evaluate_detailed self")
  then have "evaluate_detailed_loop self 0 [] (transactions self) = (t, ds)"
    by (simp add: evaluate_detailed_def)
  from evaluate_detailed_loop_inv [OF this] r show ?thesis
    by (auto simp: evaluate_def)
qed

text \<open>
  Claim C5, amended. \<open>evaluate_detailed\<close> returns one entry (transaction, score, reason)
  for each of the first \<open>n\<close> transactions, in order, and the sum of their scores clamped to
  \<open>max_score\<close> as total. Here \<open>n\<close> is the position of the first transaction at which the
  running total reaches \<open>max_score\<close>: a list that is not empty has at least its first
  entry, if the list is cut short the total has reached the maximum, and it has not
  reached it after any earlier transaction. When the running total never reaches the
  maximum, every transaction has its entry.
\<close>

theorem evaluate_detailed_entries:
  "\<exists>n\<le>length (transactions self).
     snd (evaluate_detailed self)
       = map (\<lambda>tx. (tx, score_tx self tx)) (take n (transactions self)) \<and>
     fst (evaluate_detailed self)
       = min (max_score self) (running_sum self (take n (transactions self))) \<and>
     (transactions self \<noteq> [] \<longrightarrow> 0 < n) \<and>
     (n < length (transactions self)
        \<longrightarrow> max_score self \<le> running_sum self (take n (transactions self))) \<and>
     (\<forall>k. 0 < k \<and> k < n
        \<longrightarrow> running_sum self (take k (transactions self)) < max_score self)"
proof -
  obtain t ds where r: "evaluate_detailed self = (t, ds)"
    by (cases "evaluate_detailed self")
  then have "evaluate_detailed_loop self 0 [] (transactions self) = (t, ds)"
    by (simp add: evaluate_detailed_def)
  from evaluate_detailed_loop_prefix [OF this] r show ?thesis
    by simp
qed

text \<open>
  Six large outbound transfers under the defaults: the entries are those of the first
  five, after which the total is 100; after four it is still below.
\<close>

theorem evaluate_detailed_entries_witness:
  "snd (evaluate_detailed (evaluator_of default_config (replicate 6 tx_large_out)))
     = map (\<lambda>tx. (tx, score_tx (evaluator_of default_config (replicate 6 tx_large_out)) tx))
         (take 5 (transactions (evaluator_of default_config (replicate 6 tx_large_out))))
   \<and> 5 < length (transactions (evaluator_of default_config (replicate 6 tx_large_out)))
   \<and> max_score (evaluator_of default_config (replicate 6 tx_large_out))
       \<le> running_sum (evaluator_of default_config (replicate 6 tx_large_out))
           (take 5 (transactions (evaluator_of default_config (replicate 6 tx_large_out))))
   \<and> running_sum (evaluator_of default_config (replicate 6 tx_large_out))
           (take 4 (transactions (evaluator_of default_config (replicate 6 tx_large_out))))
       < max_score (evaluator_of default_config (replicate 6 tx_large_out))"
proof -
  let ?X = "evaluator_of default_config (replicate 6 tx_large_out)"
  have len: "length (transactions ?X) = 6"
    by (simp add: evaluator_of_def)
  have five: "length (snd (evaluate_detailed ?X)) = 5"
    by code_simp
  from evaluate_detailed_entries [of ?X] obtain n where n: "n \<le> length (transactions ?X)"
    "snd (evaluate_detailed ?X) = map (\<lambda>tx. (tx, score_tx ?X tx)) (take n (transactions ?X))"
    "n < length (transactions ?X) \<longrightarrow> max_score ?X \<le> running_sum ?X (take n (transactions ?X))"
    "\<forall>k. 0 < k \<and> k < n \<longrightarrow> running_sum ?X (take k (transactions ?X)) < max_score ?X"
    by blast
  from n(1,2) five have "n = 5" by (simp add: len)
  with n(2-4) len show ?thesis by simp
qed

text \<open>
  The same input refutes one entry for every transaction: six transactions, five
  entries.
\<close>

theorem evaluate_detailed_entries_counterexample:
  "length (transactions (evaluator_of default_config (replicate 6 tx_large_out))) = 6
   \<and> length (snd (evaluate_detailed (evaluator_of default_config (replicate 6 tx_large_out)))) = 5"
  by code_simp

subsection \<open>Malformed input and configurations\<close>




text \<open>
  Two amounts that end the construction of the configurable evaluator: \<^verbatim>\<open>None\<close>, and
  the integer \<open>10 ^ 309\<close>.
\<close>

lemma construction_raises:
  "init py default_args [transfer_with NoneVal] = Inl TypeError
   \<and> init py default_args [transfer_with (IntVal (10 ^ 309))] = Inl OverflowError"
proof -
  have "(2::int) ^ 1024 \<le> \<bar>10 ^ 309\<bar>" by simp
  then have "float_of_int (10 ^ 309) = Inl OverflowError" by (rule float_of_int_overflow)
  then show ?thesis
    by (simp add: init_def init_config_default sanitize_def amount_of_def transfer_with_def)
qed

text \<open>
  Claim C7, amended. The constructor does not validate the configuration: it converts the
  threshold with \<^verbatim>\<open>float\<close> and the scores with \<^verbatim>\<open>int\<close>, and stores the results. For
  keyword arguments that convert to an invalid configuration (a negative threshold, or
  \<open>max_score\<close> at most 0) and dictionaries whose amounts \<^verbatim>\<open>float\<close> accepts, construction
  succeeds, the evaluator holds the converted configuration, and evaluation returns a score
  and raises no error. A float threshold and integer scores convert to themselves, whatever
  their values.
\<close>

theorem no_configuration_validation:
  assumes "init_config py a = Inr c" "invalid_configuration c"
    "\<forall>t\<in>set ts. \<exists>f. amount_of py t = Inr f"
  shows "(\<exists>self. init py a ts = Inr self
       \<and> large_out_threshold self = large_out_threshold c
       \<and> score_large_out self = score_large_out c
       \<and> score_unknown_dest self = score_unknown_dest c
       \<and> score_baseline self = score_baseline c
       \<and> max_score self = max_score c
       \<and> risk_score py a ts = Inr (evaluate self))
   \<and> init_config py
        \<lparr>arg_large_out_threshold = FloatVal f, arg_score_large_out = IntVal s1,
         arg_score_unknown_dest = IntVal s2, arg_score_baseline = IntVal s3,
         arg_max_score = IntVal s4\<rparr>
      = Inr \<lparr>large_out_threshold = f, score_large_out = s1, score_unknown_dest = s2,
            score_baseline = s3, max_score = s4\<rparr>"
  using sanitize_all_map [OF assms(3), of "[]"] assms(1)
  by (simp add: init_def risk_score_def evaluator_of_def init_config_typed)

text \<open>
  With \<open>max_score\<close> 0 the evaluator is built and evaluates Scenario B.
\<close>

theorem no_configuration_validation_witness:
  "init_config ascii_builtins (default_args\<lparr>arg_max_score := IntVal 0\<rparr>)
     = Inr (default_config\<lparr>max_score := 0\<rparr>)
   \<and> invalid_configuration (default_config\<lparr>max_score := 0\<rparr>)
   \<and> amount_of ascii_builtins scenario_B_dict = Inr (Finite 300)
   \<and> (\<exists>self. init ascii_builtins (default_args\<lparr>arg_max_score := IntVal 0\<rparr>)
          [scenario_B_dict] = Inr self \<and> max_score self = 0
        \<and> risk_score ascii_builtins (default_args\<lparr>arg_max_score := IntVal 0\<rparr>)
             [scenario_B_dict] = Inr (evaluate self))"
proof -
  have c: "init_config ascii_builtins (default_args\<lparr>arg_max_score := IntVal 0\<rparr>)
     = Inr (default_config\<lparr>max_score := 0\<rparr>)"
    by (simp add: init_config_def default_args_def default_config_def)
  have i: "invalid_configuration (default_config\<lparr>max_score := 0\<rparr>)"
    by (simp add: invalid_configuration_def)
  have a: "amount_of ascii_builtins scenario_B_dict = Inr (Finite 300)"
    by (simp add: amount_of_def scenario_B_dict_def float_of_int_small)
  then have h: "\<forall>t\<in>set [scenario_B_dict]. \<exists>f. amount_of ascii_builtins t = Inr f"
    by simp
  from no_configuration_validation [OF c i h, THEN conjunct1]
  obtain self where "init ascii_builtins (default_args\<lparr>arg_max_score := IntVal 0\<rparr>)
      [scenario_B_dict] = Inr self" "max_score self = max_score (default_config\<lparr>max_score := 0\<rparr>)"
    "risk_score ascii_builtins (default_args\<lparr>arg_max_score := IntVal 0\<rparr>)
      [scenario_B_dict] = Inr (evaluate self)"
    by blast
  with c i a show ?thesis by simp

qed

text \<open>
  Construction with \<open>max_score\<close> 0, and with the threshold \<open>- 1.0\<close>, returns an evaluator
  and no error.
\<close>

theorem no_configuration_validation_counterexample:
  "init ascii_builtins (default_args\<lparr>arg_max_score := IntVal 0\<rparr>) []
     = Inr (evaluator_of (default_config\<lparr>max_score := 0\<rparr>) [])
   \<and> init ascii_builtins
        (default_args\<lparr>arg_large_out_threshold := FloatVal (Finite (- 1))\<rparr>) []
     = Inr (evaluator_of (default_config\<lparr>large_out_threshold := Finite (- 1)\<rparr>) [])"
  by (simp add: init_def init_config_def default_args_def default_config_def)

text \<open>
  An error of the constructor on its keyword arguments comes from a conversion, never
  from a check of the value: the integer threshold \<open>- (10 ^ 309)\<close> has no double, and the
  integer threshold \<open>2 ^ 53 + 1\<close> is stored as the double \<open>2 ^ 53\<close>.
\<close>

lemma threshold_conversion_raises:
  "init py (default_args\<lparr>arg_large_out_threshold := IntVal (- (10 ^ 309))\<rparr>) ts
     = Inl OverflowError"
proof -
  have "(2::int) ^ 1024 \<le> \<bar>- (10 ^ 309)\<bar>" by simp
  then have "float_of_int (- (10 ^ 309)) = Inl OverflowError" by (rule float_of_int_overflow)
  then show ?thesis
    by (simp add: init_def init_config_def default_args_def)
qed

lemma threshold_conversion_rounds:
  "init_config py (default_args\<lparr>arg_large_out_threshold := IntVal (2 ^ 53 + 1)\<rparr>)
     = Inr (default_config\<lparr>large_out_threshold := Finite (2 ^ 53)\<rparr>)"
proof -
  have "float_of_int (2 ^ 53 + 1) = Inr (Finite (2 ^ 53))"
    by (simp add: float_of_int_def Let_def)
  then show ?thesis
    by (simp add: init_config_def default_args_def default_config_def)
qed

subsection \<open>The high-frequency rule\<close>

text \<open>
  Claim C8, amended. In the stacking variant, the high-frequency rule holds for a
  transaction with timestamp \<open>t\<close> exactly when at least 3 entries of the list that are
  another object than the transaction carry a timestamp less than 60 seconds away from
  \<open>t\<close>; a transaction without a timestamp never triggers the rule and is never counted.
  The rule adds 10 to the points of the other rules exactly when it holds. In a list of at
  least 4 separate transaction objects that share one timestamp, as in one of 200, the rule
  holds for every transaction.
\<close>

theorem high_frequency_rule:
  "oi_is_high_frequency self tx =
     (case r_timestamp (oi_store self tx) of
        None \<Rightarrow> False
      | Some t \<Rightarrow>
          3 \<le> length (filter (\<lambda>other. other \<noteq> tx \<and>
                 (case r_timestamp (oi_store self other) of None \<Rightarrow> False
                  | Some ot \<Rightarrow> \<bar>t - ot\<bar> < 60000000)) (oi_transactions self)))
   \<and> ((case r_amount (oi_store self tx) of None \<Rightarrow> PyNum 0 | Some v \<Rightarrow> v) = PyNum a \<longrightarrow>
        oi_evaluate_tx self tx =
          Inr (let p = (if a > 10000 \<and> r_type (oi_store self tx) = Some ''out'' then 20 else 0)
                + (if startswith (get_destination (oi_store self tx)) ''unknown_''
                   then 15 else 0)
                + (if oi_is_high_frequency self tx then 10 else 0)
                + (if oi_is_blacklisted (get_destination (oi_store self tx)) then 25 else 0)
               in if p = 0 then 5 else p))
   \<and> (distinct (oi_transactions self) \<and> 4 \<le> length (oi_transactions self)
        \<and> (\<forall>other\<in>set (oi_transactions self). r_timestamp (oi_store self other) = Some t0)
        \<longrightarrow> (\<forall>other\<in>set (oi_transactions self). oi_is_high_frequency self other))"
  using oi_is_high_frequency_count [of self tx] oi_evaluate_tx_sum [of self tx a]
    burst_all_high_frequency [of self t0]
  by blast

text \<open>
  200 separate transactions with one timestamp: the rule holds for the first and the last,
  and an ordinary transfer scores 10 instead of the baseline.
\<close>

theorem high_frequency_rule_witness:
  "distinct (oi_transactions burst_200) \<and> length (oi_transactions burst_200) = 200
   \<and> oi_is_high_frequency burst_200 0 \<and> oi_is_high_frequency burst_200 199
   \<and> oi_evaluate_tx burst_200 0 = Inr 10"
proof -
  have d: "distinct (oi_transactions burst_200)" "length (oi_transactions burst_200) = 200"
    "4 \<le> length (oi_transactions burst_200)"
    "\<forall>other\<in>set (oi_transactions burst_200). r_timestamp (oi_store burst_200 other) = Some 0"
    "0 \<in> set (oi_transactions burst_200)" "199 \<in> set (oi_transactions burst_200)"
    by (simp_all add: burst_200_def stamped_tx_def)
  have a: "(case r_amount (oi_store burst_200 0) of None \<Rightarrow> PyNum 0 | Some v \<Rightarrow> v) = PyNum 500"
    "r_type (oi_store burst_200 0) = Some ''in''"
    "get_destination (oi_store burst_200 0) = ''friend_wallet''"
    by (simp_all add: burst_200_def stamped_tx_def get_destination_def)
  have b: "\<not> oi_is_blacklisted ''friend_wallet''" "\<not> startswith ''friend_wallet'' ''unknown_''"
    by (simp_all add: oi_is_blacklisted_def)
  from high_frequency_rule [of burst_200 0 500 0] d
  have hf: "\<forall>other\<in>set (oi_transactions burst_200). oi_is_high_frequency burst_200 other"
    by blast
  with d have hf0: "oi_is_high_frequency burst_200 0" "oi_is_high_frequency burst_200 199"
    by blast+
  from high_frequency_rule [of burst_200 0 500 0] a(1)
  have "oi_evaluate_tx burst_200 0 =
          Inr (let p = (if (500::real) > 10000 \<and> r_type (oi_store burst_200 0) = Some ''out'' then 20 else 0)
                + (if startswith (get_destination (oi_store burst_200 0)) ''unknown_''
                   then 15 else 0)
                + (if oi_is_high_frequency burst_200 0 then 10 else 0)
                + (if oi_is_blacklisted (get_destination (oi_store burst_200 0)) then 25 else 0)
               in if p = 0 then 5 else p)"
    by blast
  with a b hf0 have "oi_evaluate_tx burst_200 0 = Inr 10" by (simp add: Let_def)
  with d hf0 show ?thesis by simp
qed

text \<open>
  One dictionary at 200 positions of the list: every entry is the transaction itself, none
  is counted, and the rule does not hold although 199 other positions share the timestamp.
\<close>

theorem high_frequency_rule_counterexample:
  "length (oi_transactions aliased_200) = 200
   \<and> r_timestamp (oi_store aliased_200 0) = Some 0
   \<and> \<not> oi_is_high_frequency aliased_200 0
   \<and> oi_evaluate_tx aliased_200 0 = Inr 5"
  by code_simp

subsection \<open>Monotonicity and the baseline\<close>

text \<open>
  Claim C9. Under the default configuration, and under every configuration whose rule
  scores are not negative, the unclamped sum of the scores of \<open>L @ [t]\<close> is at least that
  of \<open>L\<close>. In the stacking variant, where the score of a transaction depends on the whole
  list, the sum over the list with one more transaction is at least the sum over the list,
  and both sums exist when no amount is \<^verbatim>\<open>None\<close>.
\<close>

theorem running_sum_append:
  "running_sum (evaluator_of default_config txs) L
     \<le> running_sum (evaluator_of default_config txs) (L @ [t])
   \<and> (0 \<le> score_large_out self \<and> 0 \<le> score_unknown_dest self \<and> 0 \<le> score_baseline self
        \<longrightarrow> running_sum self L \<le> running_sum self (L @ [t]))
   \<and> (oi_running_sum (oself\<lparr>oi_transactions := M\<rparr>) = Inr a
        \<and> oi_running_sum (oself\<lparr>oi_transactions := M @ [r]\<rparr>) = Inr b \<longrightarrow> a \<le> b)
   \<and> ((\<forall>tx\<in>set (M @ [r]). r_amount (oi_store oself tx) \<noteq> Some PyNone)
        \<longrightarrow> (\<exists>a b. oi_running_sum (oself\<lparr>oi_transactions := M\<rparr>) = Inr a
              \<and> oi_running_sum (oself\<lparr>oi_transactions := M @ [r]\<rparr>) = Inr b \<and> a \<le> b))"
proof -
  have "running_sum (evaluator_of default_config txs) L
     \<le> running_sum (evaluator_of default_config txs) (L @ [t])"
    by (simp add: running_sum_snoc evaluate_tx_def score_tx_def evaluator_of_def
        default_config_def)
  moreover have "running_sum self L \<le> running_sum self (L @ [t])"
    if "0 \<le> score_large_out self" "0 \<le> score_unknown_dest self" "0 \<le> score_baseline self"
    using evaluate_tx_nonneg [OF that, of t] by (simp add: running_sum_snoc)
  moreover have mono: "a \<le> b"
    if "oi_running_sum (oself\<lparr>oi_transactions := M\<rparr>) = Inr a"
      "oi_running_sum (oself\<lparr>oi_transactions := M @ [r]\<rparr>) = Inr b" for a b
    using that by (rule oi_running_sum_append)
  moreover have "\<exists>a b. oi_running_sum (oself\<lparr>oi_transactions := M\<rparr>) = Inr a
              \<and> oi_running_sum (oself\<lparr>oi_transactions := M @ [r]\<rparr>) = Inr b \<and> a \<le> b"
    if nn: "\<forall>tx\<in>set (M @ [r]). r_amount (oi_store oself tx) \<noteq> Some PyNone"
  proof -
    from nn obtain a where a: "oi_running_sum (oself\<lparr>oi_transactions := M\<rparr>) = Inr a"
      using oi_evaluate_loop_total [of M "oself\<lparr>oi_transactions := M\<rparr>" 0]
      by (auto simp: oi_running_sum_def)
    from nn obtain b where b: "oi_running_sum (oself\<lparr>oi_transactions := M @ [r]\<rparr>) = Inr b"
      using oi_evaluate_loop_total [of "M @ [r]" "oself\<lparr>oi_transactions := M @ [r]\<rparr>" 0]
      by (auto simp: oi_running_sum_def)
    from a b mono show ?thesis by blast
  qed
  ultimately show ?thesis by blast
qed

text \<open>
  Three transactions of the sample fixture sum to 65; with the fourth, the high-frequency
  rule holds for all four and the sum is 145.
\<close>

theorem running_sum_append_witness:
  "oi_running_sum ((oi_of_dicts (sample_transactions 0))\<lparr>oi_transactions := [0, 1, 2]\<rparr>) = Inr 65
   \<and> oi_running_sum ((oi_of_dicts (sample_transactions 0))\<lparr>oi_transactions := [0, 1, 2] @ [3]\<rparr>)
       = Inr 145
   \<and> (65 :: int) \<le> 145
   \<and> 0 \<le> score_large_out (evaluator_of default_config [])
   \<and> 0 \<le> score_unknown_dest (evaluator_of default_config [])
   \<and> 0 \<le> score_baseline (evaluator_of default_config [])
   \<and> running_sum (evaluator_of default_config []) [tx_plain]
        \<le> running_sum (evaluator_of default_config []) ([tx_plain] @ [tx_unknown])"
proof -
  let ?S = "oi_of_dicts (sample_transactions 0)"
  have s: "oi_running_sum (?S\<lparr>oi_transactions := [0, 1, 2]\<rparr>) = Inr 65"
    "oi_running_sum (?S\<lparr>oi_transactions := [0, 1, 2] @ [3]\<rparr>) = Inr 145"
    by code_simp+
  have h: "0 \<le> score_large_out (evaluator_of default_config [])"
    "0 \<le> score_unknown_dest (evaluator_of default_config [])"
    "0 \<le> score_baseline (evaluator_of default_config [])"
    by (simp_all add: evaluator_of_def default_config_def)
  from running_sum_append [where txs = "[]" and L = "[tx_plain]" and t = tx_unknown
      and self = "evaluator_of default_config []" and oself = ?S and M = "[0, 1, 2]"
      and a = 65 and r = 3 and b = 145] s h
  show ?thesis by simp
qed

text \<open>
  Claim C10, amended. When neither \<open>score_large_out\<close> nor \<open>score_unknown_dest\<close> is below
  \<open>score_baseline\<close>, as under the defaults, every per-transaction score is at least
  \<open>score_baseline\<close>; when moreover \<open>score_baseline\<close> is not negative, \<open>evaluate\<close> on a
  non-empty list returns at least \<open>min max_score score_baseline\<close>. In the two variants with
  fixed constants every per-transaction score is at least 5, and a non-empty list that is
  evaluated scores at least 5.
\<close>

theorem score_at_least_baseline:
  assumes "score_baseline self \<le> score_large_out self"
    "score_baseline self \<le> score_unknown_dest self"
  shows "score_baseline self \<le> evaluate_tx self tx
   \<and> (0 \<le> score_baseline self \<and> transactions self \<noteq> []
        \<longrightarrow> min (max_score self) (score_baseline self) \<le> evaluate self)
   \<and> (oi_evaluate_tx oself r = Inr s1 \<longrightarrow> 5 \<le> s1)
   \<and> (oi_evaluate oself = Inr s2 \<and> oi_transactions oself \<noteq> [] \<longrightarrow> 5 \<le> s2)
   \<and> (bd_evaluate_tx btx = Inr s3 \<longrightarrow> 5 \<le> s3)
   \<and> (bd_evaluate btxs = Inr s4 \<and> btxs \<noteq> [] \<longrightarrow> 5 \<le> s4)"
  using evaluate_tx_ge_baseline [OF assms, of tx] evaluate_ge_baseline [OF assms]
    oi_evaluate_tx_ge5 [of oself r s1] oi_evaluate_nonempty [of oself s2]
    bd_evaluate_tx_ge5 [of btx s3] bd_evaluate_nonempty [of btxs s4]
  by blast

text \<open>
  One ordinary inbound transfer scores 5 in each of the three variants.
\<close>

theorem score_at_least_baseline_witness:
  "score_baseline (evaluator_of default_config [tx_plain])
     \<le> score_large_out (evaluator_of default_config [tx_plain])
   \<and> score_baseline (evaluator_of default_config [tx_plain])
     \<le> score_unknown_dest (evaluator_of default_config [tx_plain])
   \<and> 0 \<le> score_baseline (evaluator_of default_config [tx_plain])
   \<and> transactions (evaluator_of default_config [tx_plain]) \<noteq> []
   \<and> score_baseline (evaluator_of default_config [tx_plain])
     \<le> evaluate_tx (evaluator_of default_config [tx_plain]) tx_plain
   \<and> min (max_score (evaluator_of default_config [tx_plain]))
         (score_baseline (evaluator_of default_config [tx_plain]))
     \<le> evaluate (evaluator_of default_config [tx_plain])
   \<and> evaluate (evaluator_of default_config [tx_plain]) = 5
   \<and> oi_evaluate (oi_of_dicts [stamped_tx]) = Inr 5
   \<and> bd_evaluate [stamped_tx] = Inr 5"
proof -
  let ?X = "evaluator_of default_config [tx_plain]"
  have h: "score_baseline ?X \<le> score_large_out ?X" "score_baseline ?X \<le> score_unknown_dest ?X"
    "0 \<le> score_baseline ?X" "transactions ?X \<noteq> []"
    by (simp_all add: evaluator_of_def default_config_def)
  have e: "evaluate ?X = 5" "oi_evaluate (oi_of_dicts [stamped_tx]) = Inr 5"
    "bd_evaluate [stamped_tx] = Inr 5"
    by code_simp+
  from score_at_least_baseline [OF h(1,2), where tx = tx_plain
      and oself = "oi_of_dicts [stamped_tx]" and r = 0 and ?s1.0 = 5 and ?s2.0 = 5
      and btx = stamped_tx and ?s3.0 = 5 and btxs = "[stamped_tx]" and ?s4.0 = 5] h e
  show ?thesis by simp
qed

text \<open>
  With \<open>score_large_out\<close> configured as 1 and the baseline 5, a large outbound transfer
  scores 1, and so does the list that holds it.
\<close>

theorem score_at_least_baseline_counterexample:
  "score_baseline (evaluator_of (default_config\<lparr>score_large_out := 1\<rparr>) [tx_large_out]) = 5
   \<and> evaluate_tx (evaluator_of (default_config\<lparr>score_large_out := 1\<rparr>) [tx_large_out])
        tx_large_out = 1
   \<and> max_score (evaluator_of (default_config\<lparr>score_large_out := 1\<rparr>) [tx_large_out]) = 100
   \<and> evaluate (evaluator_of (default_config\<lparr>score_large_out := 1\<rparr>) [tx_large_out]) = 1"
  by code_simp

end
